theory Spec2Isabelle
  imports Main
begin

section \<open>Shared runtime: errors, console, clock, number formatting\<close>

text \<open>
  Both exercises are Python scripts. Exceptions become values of \<open>error\<close>; a function that
  can raise returns \<open>error + 'a\<close> together with the state reached when it stopped, since
  Python keeps every mutation made before the exception.
\<close>

datatype error = KeyError string | ValueError string

text \<open>
  The part of the world both scripts touch: the console (one element per \<open>print\<close> call, the
  implicit final newline left out) and the number of times \<open>datetime.now()\<close> was read.
  The two systems extend this record with their own history list.
\<close>

record world =
  stdout :: "string list"
  clock_reads :: nat

text \<open>
  What the scripts take from the Python library and is not in the repository:
  the value of the k-th \<open>datetime.now()\<close>, its two renderings, and the rendering of a number
  by \<open>f"{x}"\<close> and by \<open>f"{x:.2f}"\<close>. The number type \<open>'n\<close> is left open (Python floats or
  ints), with only \<open>0\<close>, \<open>+\<close> and \<open>-\<close> used on it.
\<close>

record ('n, 't) runtime =
  now :: "nat \<Rightarrow> 't"
  isoformat :: "'t \<Rightarrow> string"
  strftime :: "'t \<Rightarrow> string \<Rightarrow> string"
  str_num :: "'n \<Rightarrow> string"
  fmt_2f :: "'n \<Rightarrow> string"

type_synonym pydict = "string \<rightharpoonup> string"

definition print :: "string \<Rightarrow> 'w world_scheme \<Rightarrow> 'w world_scheme" where
  "print s w = w\<lparr>stdout := stdout w @ [s]\<rparr>"

definition datetime_now :: "('n, 't) runtime \<Rightarrow> 'w world_scheme \<Rightarrow> 't \<times> 'w world_scheme" where
  "datetime_now R w = (now R (clock_reads w), w\<lparr>clock_reads := Suc (clock_reads w)\<rparr>)"

text \<open>Decimal rendering of a Python int, as \<open>f"{len(xs)}"\<close> prints it.\<close>

fun str_nat :: "nat \<Rightarrow> string" where
  "str_nat n =
     (if n < 10 then [''0123456789'' ! n]
      else str_nat (n div 10) @ [''0123456789'' ! (n mod 10)])"

declare str_nat.simps [simp del]

definition str_int :: "int \<Rightarrow> string" where
  "str_int i = (if i < 0 then ''-'' @ str_nat (nat (- i)) else str_nat (nat i))"

text \<open>Non-ASCII characters of the source's string literals, as their UTF-8 bytes.\<close>

definition o_acute :: string where "o_acute = [CHR 0xC3, CHR 0xB3]"
definition u_acute :: string where "u_acute = [CHR 0xC3, CHR 0xBA]"
definition i_acute :: string where "i_acute = [CHR 0xC3, CHR 0xAD]"
definition bullet :: string where "bullet = [CHR 0xE2, CHR 0x80, CHR 0xA2]"
definition emoji_email :: string where "emoji_email = [CHR 0xF0, CHR 0x9F, CHR 0x93, CHR 0xA7]"
definition emoji_phone :: string where "emoji_phone = [CHR 0xF0, CHR 0x9F, CHR 0x93, CHR 0xB1]"
definition emoji_bell :: string where "emoji_bell = [CHR 0xF0, CHR 0x9F, CHR 0x94, CHR 0x94]"
definition emoji_page :: string where "emoji_page = [CHR 0xF0, CHR 0x9F, CHR 0x93, CHR 0x84]"
definition emoji_chart :: string where "emoji_chart = [CHR 0xF0, CHR 0x9F, CHR 0x93, CHR 0x8A]"
definition emoji_globe :: string where "emoji_globe = [CHR 0xF0, CHR 0x9F, CHR 0x8C, CHR 0x90]"
definition emoji_disk :: string where "emoji_disk = [CHR 0xF0, CHR 0x9F, CHR 0x92, CHR 0xBE]"
definition emoji_cloud :: string where
  "emoji_cloud = [CHR 0xE2, CHR 0x98, CHR 0x81, CHR 0xEF, CHR 0xB8, CHR 0x8F]"
definition emoji_check :: string where "emoji_check = [CHR 0xE2, CHR 0x9C, CHR 0x85]"

definition nl :: string where "nl = [CHR 0x0A]"

section \<open>Exercise 1: order notifications\<close>

datatype NotificationType = EMAIL | SMS | PUSH

text \<open>\<open>NotificationType(type_str)\<close>: the enum looked up by value; \<open>None\<close> is its ValueError.\<close>

definition NotificationType_of :: "string \<Rightarrow> NotificationType option" where
  "NotificationType_of type_str =
     (if type_str = ''email'' then Some EMAIL
      else if type_str = ''sms'' then Some SMS
      else if type_str = ''push'' then Some PUSH
      else None)"

datatype sender = EmailSender | SMSSender | PushSender

datatype strategy = EmailMessageStrategy | ShortMessageStrategy

fun send :: "('n, 't) runtime \<Rightarrow> sender \<Rightarrow> pydict \<Rightarrow> pydict \<Rightarrow> 'w world_scheme
    \<Rightarrow> (error + pydict) \<times> 'w world_scheme" where
  "send R EmailSender customer_data message_data w =
     (case customer_data ''email'' of
        None \<Rightarrow> (Inl (KeyError ''email''), w)
      | Some email \<Rightarrow>
     (case message_data ''body'' of
        None \<Rightarrow> (Inl (KeyError ''body''), w)
      | Some body \<Rightarrow>
        let subject = (case message_data ''subject'' of
                         None \<Rightarrow> ''Notificaci'' @ o_acute @ ''n'' | Some s \<Rightarrow> s);
            w1 = print (emoji_email @ '' EMAIL enviado a '' @ email) w;
            w2 = print (''   Asunto: '' @ subject) w1;
            w3 = print (''   Mensaje: '' @ body @ nl) w2;
            (t, w4) = datetime_now R w3
        in (Inr [''type'' \<mapsto> ''email'', ''to'' \<mapsto> email, ''message'' \<mapsto> body,
                 ''timestamp'' \<mapsto> isoformat R t], w4)))"
| "send R SMSSender customer_data message_data w =
     (case customer_data ''phone'' of
        None \<Rightarrow> (Inl (KeyError ''phone''), w)
      | Some phone \<Rightarrow>
     (case message_data ''body'' of
        None \<Rightarrow> (Inl (KeyError ''body''), w)
      | Some body \<Rightarrow>
        let w1 = print (emoji_phone @ '' SMS enviado a '' @ phone) w;
            w2 = print (''   Mensaje: '' @ body @ nl) w1;
            (t, w3) = datetime_now R w2
        in (Inr [''type'' \<mapsto> ''sms'', ''to'' \<mapsto> phone, ''message'' \<mapsto> body,
                 ''timestamp'' \<mapsto> isoformat R t], w3)))"
| "send R PushSender customer_data message_data w =
     (case customer_data ''device_id'' of
        None \<Rightarrow> (Inl (KeyError ''device_id''), w)
      | Some device_id \<Rightarrow>
     (case message_data ''body'' of
        None \<Rightarrow> (Inl (KeyError ''body''), w)
      | Some body \<Rightarrow>
        let w1 = print (emoji_bell @ '' PUSH enviada al dispositivo '' @ device_id) w;
            w2 = print (''   Mensaje: '' @ body @ nl) w1;
            (t, w3) = datetime_now R w2
        in (Inr [''type'' \<mapsto> ''push'', ''to'' \<mapsto> device_id, ''message'' \<mapsto> body,
                 ''timestamp'' \<mapsto> isoformat R t], w3)))"

fun create_message :: "('n, 't) runtime \<Rightarrow> strategy \<Rightarrow> string \<Rightarrow> string \<Rightarrow> 'n \<Rightarrow> pydict" where
  "create_message R EmailMessageStrategy oid customer_name tot =
     [''subject'' \<mapsto> ''Confirmaci'' @ o_acute @ ''n de Pedido #'' @ oid,
      ''body'' \<mapsto> ''Estimado '' @ customer_name @ '', su pedido #'' @ oid @ '' por $''
                  @ str_num R tot @ '' ha sido confirmado.'']"
| "create_message R ShortMessageStrategy oid customer_name tot =
     [''body'' \<mapsto> ''Pedido #'' @ oid @ '' confirmado. Total: $'' @ str_num R tot
                  @ ''. Gracias por su compra!'']"

text \<open>The two lookup tables of \<open>NotificationFactory\<close>, total over the enum.\<close>

fun senders :: "NotificationType \<Rightarrow> sender" where
  "senders EMAIL = EmailSender"
| "senders SMS = SMSSender"
| "senders PUSH = PushSender"

fun strategies :: "NotificationType \<Rightarrow> strategy" where
  "strategies EMAIL = EmailMessageStrategy"
| "strategies SMS = ShortMessageStrategy"
| "strategies PUSH = ShortMessageStrategy"

definition get_sender :: "string \<Rightarrow> error + sender" where
  "get_sender type_str =
     (case NotificationType_of type_str of
        Some notif_type \<Rightarrow> Inr (senders notif_type)
      | None \<Rightarrow> Inl (ValueError (''Tipo de notificaci'' @ o_acute @ ''n no soportado: '' @ type_str)))"

definition get_strategy :: "string \<Rightarrow> error + strategy" where
  "get_strategy type_str =
     (case NotificationType_of type_str of
        Some notif_type \<Rightarrow> Inr (strategies notif_type)
      | None \<Rightarrow> Inr ShortMessageStrategy)"

text \<open>
  \<open>order_data\<close> is a dict read at three fixed keys with values of three types; each key is
  an optional field, \<open>None\<close> for a key that is absent. The customer is a dict of strings.
\<close>

record 'n order =
  order_id :: "string option"
  customer :: "pydict option"
  total :: "'n option"

record order_notification_system = world +
  notifications_sent :: "pydict list"

text \<open>The \<open>for type_str in notification_types\<close> loop of \<open>process_order\<close>.\<close>

fun process_loop :: "('n, 't) runtime \<Rightarrow> string \<Rightarrow> pydict \<Rightarrow> 'n \<Rightarrow> string list
    \<Rightarrow> order_notification_system \<Rightarrow> (error + unit) \<times> order_notification_system" where
  "process_loop R oid cust tot [] sys = (Inr (), sys)"
| "process_loop R oid cust tot (type_str # rest) sys =
     (case get_sender type_str of
        Inl e \<Rightarrow> (Inl e, sys)
      | Inr sender \<Rightarrow>
     (case get_strategy type_str of
        Inl e \<Rightarrow> (Inl e, sys)
      | Inr message_strategy \<Rightarrow>
     (case cust ''name'' of
        None \<Rightarrow> (Inl (KeyError ''name''), sys)
      | Some customer_name \<Rightarrow>
        let msg_data = create_message R message_strategy oid customer_name tot
        in (case send R sender cust msg_data sys of
              (Inl e, sys1) \<Rightarrow> (Inl e, sys1)
            | (Inr log_entry, sys1) \<Rightarrow>
                process_loop R oid cust tot rest
                  (sys1\<lparr>notifications_sent := notifications_sent sys1 @ [log_entry]\<rparr>)))))"

definition process_order :: "('n, 't) runtime \<Rightarrow> 'n order \<Rightarrow> string list
    \<Rightarrow> order_notification_system \<Rightarrow> (error + unit) \<times> order_notification_system" where
  "process_order R order_data notification_types sys =
     (case order_id order_data of
        None \<Rightarrow> (Inl (KeyError ''order_id''), sys)
      | Some oid \<Rightarrow>
     (case customer order_data of
        None \<Rightarrow> (Inl (KeyError ''customer''), sys)
      | Some cust \<Rightarrow>
     (case total order_data of
        None \<Rightarrow> (Inl (KeyError ''total''), sys)
      | Some tot \<Rightarrow>
        let sys1 = print (nl @ replicate 50 (CHR ''='')) sys;
            sys2 = print (''Procesando pedido #'' @ oid) sys1
        in (case cust ''name'' of
              None \<Rightarrow> (Inl (KeyError ''name''), sys2)
            | Some customer_name \<Rightarrow>
                let sys3 = print (''Cliente: '' @ customer_name) sys2;
                    sys4 = print (''Total: $'' @ str_num R tot) sys3;
                    sys5 = print (replicate 50 (CHR ''='') @ nl) sys4
                in process_loop R oid cust tot notification_types sys5))))"

definition get_notification_history :: "order_notification_system \<Rightarrow> pydict list" where
  "get_notification_history sys = notifications_sent sys"

section \<open>Exercise 2: reports\<close>

text \<open>
  The data payload is a dict read at the keys \<open>period\<close>, \<open>sales\<close>, \<open>items\<close>, \<open>income\<close> and
  \<open>expenses\<close>; a sale is read at \<open>product\<close> and \<open>amount\<close>, an item at \<open>name\<close>,
  \<open>quantity\<close> and \<open>category\<close>. Each key is an optional field, \<open>None\<close> when absent.
\<close>

record 'n sale =
  product :: "string option"
  amount :: "'n option"

record 'n item =
  name :: "string option"
  quantity :: "'n option"
  category :: "string option"

record 'n payload =
  period :: "string option"
  sales :: "'n sale list option"
  items :: "'n item list option"
  income :: "'n option"
  expenses :: "'n option"

datatype generator = SalesGenerator | InventoryGenerator | FinancialGenerator

text \<open>\<open>sum(item['amount'] for item in data['sales'])\<close>, started at 0 and added left to right.\<close>

fun sum_amounts :: "'n::plus \<Rightarrow> 'n sale list \<Rightarrow> error + 'n" where
  "sum_amounts acc [] = Inr acc"
| "sum_amounts acc (item # rest) =
     (case amount item of
        None \<Rightarrow> Inl (KeyError ''amount'')
      | Some a \<Rightarrow> sum_amounts (acc + a) rest)"

text \<open>The \<open>for sale in data['sales']\<close> loop, appending one line to \<open>text\<close> per sale.\<close>

fun sales_detail :: "('n, 't) runtime \<Rightarrow> string \<Rightarrow> 'n sale list \<Rightarrow> error + string" where
  "sales_detail R text [] = Inr text"
| "sales_detail R text (sale # rest) =
     (case product sale of
        None \<Rightarrow> Inl (KeyError ''product'')
      | Some p \<Rightarrow>
     (case amount sale of
        None \<Rightarrow> Inl (KeyError ''amount'')
      | Some a \<Rightarrow>
          sales_detail R
            (text @ ''  '' @ bullet @ '' Producto: '' @ p @ '' - $'' @ fmt_2f R a @ nl) rest))"

text \<open>\<open>sum(item['quantity'] for item in data['items'])\<close>.\<close>

fun sum_quantities :: "'n::plus \<Rightarrow> 'n item list \<Rightarrow> error + 'n" where
  "sum_quantities acc [] = Inr acc"
| "sum_quantities acc (item # rest) =
     (case quantity item of
        None \<Rightarrow> Inl (KeyError ''quantity'')
      | Some q \<Rightarrow> sum_quantities (acc + q) rest)"

text \<open>\<open>item.get('category', 'General')\<close>.\<close>

definition get_category :: "'n item \<Rightarrow> string" where
  "get_category item = (case category item of None \<Rightarrow> ''General'' | Some c \<Rightarrow> c)"

text \<open>The \<open>for item in data['items']\<close> loop.\<close>

fun inventory_detail :: "('n, 't) runtime \<Rightarrow> string \<Rightarrow> 'n item list \<Rightarrow> error + string" where
  "inventory_detail R text [] = Inr text"
| "inventory_detail R text (item # rest) =
     (case name item of
        None \<Rightarrow> Inl (KeyError ''name'')
      | Some nm \<Rightarrow>
     (case quantity item of
        None \<Rightarrow> Inl (KeyError ''quantity'')
      | Some q \<Rightarrow>
          inventory_detail R
            (text @ ''  '' @ bullet @ '' '' @ nm @ '' ('' @ get_category item @ ''): ''
               @ str_num R q @ '' unidades'' @ nl) rest))"

fun generate :: "('n::{zero,plus,minus}, 't) runtime \<Rightarrow> generator \<Rightarrow> 'n payload
    \<Rightarrow> 'w world_scheme \<Rightarrow> (error + string) \<times> 'w world_scheme" where
  "generate R SalesGenerator data w =
     (let (t, w1) = datetime_now R w;
          timestamp = strftime R t ''%Y-%m-%d %H:%M:%S'';
          text = replicate 60 (CHR ''='') @ nl;
          text = text @ ''           REPORTE DE VENTAS'' @ nl;
          text = text @ replicate 60 (CHR ''='') @ nl;
          text = text @ ''Fecha de generaci'' @ o_acute @ ''n: '' @ timestamp @ nl @ nl;
          text = (case period data of
                    Some p \<Rightarrow> text @ ''Periodo: '' @ p @ nl
                  | None \<Rightarrow> text)
      in (case sales data of
            None \<Rightarrow> (Inl (KeyError ''sales''), w1)
          | Some ss \<Rightarrow>
         (case sum_amounts 0 ss of
            Inl e \<Rightarrow> (Inl e, w1)
          | Inr tot \<Rightarrow>
              let text = text @ ''Total de ventas: $'' @ fmt_2f R tot @ nl;
                  text = text @ ''N'' @ u_acute @ ''mero de transacciones: ''
                           @ str_nat (length ss) @ nl @ nl;
                  text = text @ ''Detalle de ventas:'' @ nl;
                  text = text @ replicate 60 (CHR ''-'') @ nl
              in (case sales_detail R text ss of
                    Inl e \<Rightarrow> (Inl e, w1)
                  | Inr text \<Rightarrow> (Inr text, w1)))))"
| "generate R InventoryGenerator data w =
     (let (t, w1) = datetime_now R w;
          timestamp = strftime R t ''%Y-%m-%d %H:%M:%S'';
          text = replicate 60 (CHR ''='') @ nl;
          text = text @ ''           REPORTE DE INVENTARIO'' @ nl;
          text = text @ replicate 60 (CHR ''='') @ nl;
          text = text @ ''Fecha de generaci'' @ o_acute @ ''n: '' @ timestamp @ nl @ nl
      in (case items data of
            None \<Rightarrow> (Inl (KeyError ''items''), w1)
          | Some its \<Rightarrow>
         (case sum_quantities 0 its of
            Inl e \<Rightarrow> (Inl e, w1)
          | Inr total_items \<Rightarrow>
              let text = text @ ''Total de productos: '' @ str_num R total_items @ nl;
                  categories = set (map get_category its);
                  text = text @ ''Categor'' @ i_acute @ ''as: '' @ str_nat (card categories)
                           @ nl @ nl;
                  text = text @ ''Inventario actual:'' @ nl;
                  text = text @ replicate 60 (CHR ''-'') @ nl
              in (case inventory_detail R text its of
                    Inl e \<Rightarrow> (Inl e, w1)
                  | Inr text \<Rightarrow> (Inr text, w1)))))"
| "generate R FinancialGenerator data w =
     (let (t, w1) = datetime_now R w;
          timestamp = strftime R t ''%Y-%m-%d %H:%M:%S'';
          text = replicate 60 (CHR ''='') @ nl;
          text = text @ ''           REPORTE FINANCIERO'' @ nl;
          text = text @ replicate 60 (CHR ''='') @ nl;
          text = text @ ''Fecha de generaci'' @ o_acute @ ''n: '' @ timestamp @ nl @ nl
      in (case income data of
            None \<Rightarrow> (Inl (KeyError ''income''), w1)
          | Some inc \<Rightarrow>
         (case expenses data of
            None \<Rightarrow> (Inl (KeyError ''expenses''), w1)
          | Some ex \<Rightarrow>
              let text = text @ ''Ingresos: $'' @ fmt_2f R inc @ nl;
                  text = text @ ''Gastos: $'' @ fmt_2f R ex @ nl;
                  text = text @ ''Balance: $'' @ fmt_2f R (inc - ex) @ nl
              in (Inr text, w1))))"

datatype formatter = PdfFormatter | ExcelFormatter | HtmlFormatter

fun format :: "formatter \<Rightarrow> string \<Rightarrow> 'w world_scheme \<Rightarrow> string \<times> 'w world_scheme" where
  "format PdfFormatter text w =
     (let w1 = print (emoji_page @ '' Generando reporte en formato PDF...'') w
      in (''[PDF FORMAT]'' @ nl @ text @ nl @ ''[END PDF]'', w1))"
| "format ExcelFormatter text w =
     (let w1 = print (emoji_chart @ '' Generando reporte en formato Excel...'') w
      in (''[EXCEL FORMAT]'' @ nl @ text @ nl @ ''[END EXCEL]'', w1))"
| "format HtmlFormatter text w =
     (let w1 = print (emoji_globe @ '' Generando reporte en formato HTML...'') w
      in (''<html><body><pre>'' @ text @ ''</pre></body></html>'', w1))"

datatype delivery = EmailDelivery | DownloadDelivery | CloudDelivery

fun deliver :: "('n, 't) runtime \<Rightarrow> delivery \<Rightarrow> string \<Rightarrow> pydict \<Rightarrow> 'w world_scheme
    \<Rightarrow> (error + unit) \<times> 'w world_scheme" where
  "deliver R EmailDelivery document meta_data w =
     (let w1 = print (emoji_email @ '' Enviando reporte por email...'') w;
          w2 = print ''   Destinatario: admin@company.com'' w1
      in (Inr (), w2))"
| "deliver R DownloadDelivery document meta_data w =
     (case meta_data ''type'' of
        None \<Rightarrow> (Inl (KeyError ''type''), w)
      | Some ty \<Rightarrow>
          let (t, w1) = datetime_now R w
          in (case meta_data ''format'' of
                None \<Rightarrow> (Inl (KeyError ''format''), w1)
              | Some fm \<Rightarrow>
                  let filename = ''report_'' @ ty @ ''_'' @ strftime R t ''%Y%m%d_%H%M%S''
                                   @ ''.'' @ fm;
                      w2 = print (emoji_disk @ '' Reporte disponible para descarga: ''
                                    @ filename) w1
                  in (Inr (), w2)))"
| "deliver R CloudDelivery document meta_data w =
     (let w1 = print (emoji_cloud @ ''  Subiendo reporte a la nube...'') w
      in (case meta_data ''type'' of
            None \<Rightarrow> (Inl (KeyError ''type''), w1)
          | Some ty \<Rightarrow>
              let w2 = print (''   URL: https://cloud.company.com/reports/'' @ ty) w1
              in (Inr (), w2)))"

text \<open>\<open>ReportFactory\<close>: \<open>get_generator\<close> returns Python's \<open>None\<close> for an unknown tag.\<close>

definition get_generator :: "string \<Rightarrow> generator option" where
  "get_generator report_type =
     (if report_type = ''sales'' then Some SalesGenerator
      else if report_type = ''inventory'' then Some InventoryGenerator
      else if report_type = ''financial'' then Some FinancialGenerator
      else None)"

definition get_formatter :: "string \<Rightarrow> formatter" where
  "get_formatter output_format =
     (if output_format = ''pdf'' then PdfFormatter
      else if output_format = ''excel'' then ExcelFormatter
      else if output_format = ''html'' then HtmlFormatter
      else HtmlFormatter)"

definition get_delivery :: "string \<Rightarrow> delivery" where
  "get_delivery delivery_method =
     (if delivery_method = ''email'' then EmailDelivery
      else if delivery_method = ''download'' then DownloadDelivery
      else if delivery_method = ''cloud'' then CloudDelivery
      else DownloadDelivery)"

record report_system = world +
  reports_generated :: "pydict list"

text \<open>
  \<open>generate_report\<close> returns the document, or Python's \<open>None\<close> (the bare \<open>return\<close>) when no
  generator was found.
\<close>

definition generate_report :: "('n::{zero,plus,minus}, 't) runtime \<Rightarrow> string \<Rightarrow> 'n payload
    \<Rightarrow> string \<Rightarrow> string \<Rightarrow> report_system \<Rightarrow> (error + string option) \<times> report_system" where
  "generate_report R report_type data output_format delivery_method sys =
     (let generator = get_generator report_type;
          formatter = get_formatter output_format;
          delivery = get_delivery delivery_method
      in (case generator of
            None \<Rightarrow> (Inr None, print ''Error: No se pudo generar el reporte'' sys)
          | Some g \<Rightarrow>
         (case generate R g data sys of
            (Inl e, sys1) \<Rightarrow> (Inl e, sys1)
          | (Inr raw_content, sys1) \<Rightarrow>
              let (final_document, sys2) = format formatter raw_content sys1;
                  meta_data = [''type'' \<mapsto> report_type, ''format'' \<mapsto> output_format]
              in (case deliver R delivery final_document meta_data sys2 of
                    (Inl e, sys3) \<Rightarrow> (Inl e, sys3)
                  | (Inr u, sys3) \<Rightarrow>
                      let (t, sys4) = datetime_now R sys3;
                          timestamp = strftime R t ''%Y-%m-%d %H:%M:%S'';
                          sys5 = sys4\<lparr>reports_generated := reports_generated sys4 @
                                   [[''type'' \<mapsto> report_type, ''format'' \<mapsto> output_format,
                                     ''delivery'' \<mapsto> delivery_method,
                                     ''timestamp'' \<mapsto> timestamp]]\<rparr>;
                          sys6 = print (nl @ emoji_check @ '' Reporte generado exitosamente''
                                          @ nl) sys5;
                          sys7 = print final_document sys6;
                          sys8 = print (nl @ replicate 60 (CHR ''='') @ nl) sys7
                      in (Inr (Some final_document), sys8)))))"

definition get_report_history :: "report_system \<Rightarrow> pydict list" where
  "get_report_history sys = reports_generated sys"

text \<open>
  The fields a generator reads without a default: \<open>generate\<close> returns a text exactly on
  the payloads that have them (lemmas \<open>generate_ok\<close> and \<open>generate_Inr\<close> below).
\<close>

fun required_fields_present :: "generator \<Rightarrow> 'n payload \<Rightarrow> bool" where
  "required_fields_present SalesGenerator data =
     (case sales data of
        None \<Rightarrow> False
      | Some ss \<Rightarrow> list_all (\<lambda>s. product s \<noteq> None \<and> amount s \<noteq> None) ss)"
| "required_fields_present InventoryGenerator data =
     (case items data of
        None \<Rightarrow> False
      | Some its \<Rightarrow> list_all (\<lambda>i. name i \<noteq> None \<and> quantity i \<noteq> None) its)"
| "required_fields_present FinancialGenerator data =
     (income data \<noteq> None \<and> expenses data \<noteq> None)"

text \<open>
  A runtime for Python ints with a counting clock, used to run the model on concrete inputs:
  \<open>f"{n}"\<close> and \<open>f"{n:.2f}"\<close> of an int are its decimal digits and the digits followed by
  \<open>.00\<close>; the k-th reading of the clock is k.
\<close>

definition int_runtime :: "(int, nat) runtime" where
  "int_runtime = \<lparr>now = (\<lambda>k. k), isoformat = (\<lambda>t. ''T'' @ str_nat t),
     strftime = (\<lambda>t f. ''T'' @ str_nat t), str_num = str_int,
     fmt_2f = (\<lambda>i. str_int i @ ''.00'')\<rparr>"

definition new_order_notification_system :: order_notification_system where
  "new_order_notification_system = \<lparr>stdout = [], clock_reads = 0, notifications_sent = []\<rparr>"

definition new_report_system :: report_system where
  "new_report_system = \<lparr>stdout = [], clock_reads = 0, reports_generated = []\<rparr>"

section \<open>Properties of exercise 1\<close>

subsection \<open>Senders, strategies and the loop\<close>

lemma get_sender_unsupported:
  "t \<notin> {''email'', ''sms'', ''push''} \<Longrightarrow>
   get_sender t = Inl (ValueError (''Tipo de notificaci'' @ o_acute @ ''n no soportado: '' @ t))"
  by (simp add: get_sender_def NotificationType_of_def)

lemma send_type:
  "send R s c m w = (Inr e, w') \<Longrightarrow> get_sender t = Inr s \<Longrightarrow> e ''type'' = Some t"
  by (cases s) (auto simp: get_sender_def NotificationType_of_def Let_def datetime_now_def
      split: if_splits option.splits prod.splits)

lemma send_history:
  "send R s c m sys = (r, sys') \<Longrightarrow> notifications_sent sys' = notifications_sent sys"
  by (cases s) (auto simp: Let_def datetime_now_def print_def split: option.splits prod.splits)

lemma create_message_body: "\<exists>b. create_message R st oid n tot ''body'' = Some b"
  by (cases st) simp_all

lemma send_ok:
  assumes "(t = ''email'' \<and> c ''email'' = Some r) \<or> (t = ''sms'' \<and> c ''phone'' = Some r)
           \<or> (t = ''push'' \<and> c ''device_id'' = Some r)"
      and "m ''body'' = Some b"
  shows "\<exists>s e w'. get_sender t = Inr s \<and> send R s c m w = (Inr e, w') \<and> e ''to'' = Some r"
  using assms
  by (auto simp: get_sender_def NotificationType_of_def Let_def datetime_now_def
      split: prod.splits)

lemma get_strategy_total: "\<exists>st. get_strategy t = Inr st"
  by (simp add: get_strategy_def split: option.splits)

lemma process_loop_append:
  "process_loop R oid c tot pre sys = (Inr (), sys1) \<Longrightarrow>
   process_loop R oid c tot (pre @ rest) sys = process_loop R oid c tot rest sys1"
proof (induction pre arbitrary: sys)
  case Nil
  then show ?case by simp
next
  case (Cons t pre)
  then show ?case
    by (auto simp: Let_def split: sum.splits option.splits prod.splits)
qed

lemma process_loop_history:
  "process_loop R oid c tot tags sys = (Inr (), sys1) \<Longrightarrow>
   \<exists>es. notifications_sent sys1 = notifications_sent sys @ es \<and>
        map (\<lambda>e. e ''type'') es = map Some tags"
proof (induction tags arbitrary: sys)
  case Nil
  then show ?case by simp
next
  case (Cons t tags)
  from Cons.prems obtain s st n e sysa where
    s: "get_sender t = Inr s" and
    snd: "send R s c (create_message R st oid n tot) sys = (Inr e, sysa)" and
    rest: "process_loop R oid c tot tags
             (sysa\<lparr>notifications_sent := notifications_sent sysa @ [e]\<rparr>) = (Inr (), sys1)"
    by (auto simp: Let_def split: sum.splits option.splits prod.splits)
  from Cons.IH [OF rest] obtain es where
    es: "notifications_sent sys1 = (notifications_sent sysa @ [e]) @ es"
        "map (\<lambda>e. e ''type'') es = map Some tags"
    by auto
  have "notifications_sent sysa = notifications_sent sys"
    using send_history [OF snd] .
  moreover have "e ''type'' = Some t"
    using send_type [OF snd s] .
  ultimately have "notifications_sent sys1 = notifications_sent sys @ (e # es) \<and>
      map (\<lambda>e. e ''type'') (e # es) = map Some (t # tags)"
    using es by simp
  then show ?case by blast
qed

lemma process_loop_step_ok:
  assumes nm: "c ''name'' = Some n"
      and fld: "(t = ''email'' \<and> c ''email'' = Some r) \<or> (t = ''sms'' \<and> c ''phone'' = Some r)
           \<or> (t = ''push'' \<and> c ''device_id'' = Some r)"
  shows "\<exists>e sysa. e ''to'' = Some r \<and> e ''type'' = Some t \<and>
           notifications_sent sysa = notifications_sent sys \<and>
           process_loop R oid c tot (t # rest) sys =
           process_loop R oid c tot rest (sysa\<lparr>notifications_sent := notifications_sent sysa @ [e]\<rparr>)"
proof -
  obtain st where st: "get_strategy t = Inr st"
    using get_strategy_total [of t] by blast
  obtain b where b: "create_message R st oid n tot ''body'' = Some b"
    using create_message_body [of R st oid n tot] by blast
  from send_ok [where m = "create_message R st oid n tot" and R = R and w = sys, OF fld b]
  obtain s e sysa where
    s: "get_sender t = Inr s" and
    snd: "send R s c (create_message R st oid n tot) sys = (Inr e, sysa)" and
    to: "e ''to'' = Some r"
    by blast
  have "process_loop R oid c tot (t # rest) sys =
        process_loop R oid c tot rest (sysa\<lparr>notifications_sent := notifications_sent sysa @ [e]\<rparr>)"
    by (simp add: s st nm snd)
  with to send_type [OF snd s] send_history [OF snd] show ?thesis by blast
qed

lemma process_loop_ok:
  assumes nm: "c ''name'' = Some n"
  shows "\<forall>t\<in>set tags. (t = ''email'' \<and> c ''email'' \<noteq> None) \<or> (t = ''sms'' \<and> c ''phone'' \<noteq> None)
           \<or> (t = ''push'' \<and> c ''device_id'' \<noteq> None) \<Longrightarrow>
         \<exists>sys1. process_loop R oid c tot tags sys = (Inr (), sys1)"
proof (induction tags arbitrary: sys)
  case Nil
  then show ?case by simp
next
  case (Cons t tags)
  from Cons.prems have "\<exists>r. (t = ''email'' \<and> c ''email'' = Some r) \<or> (t = ''sms'' \<and> c ''phone'' = Some r)
           \<or> (t = ''push'' \<and> c ''device_id'' = Some r)"
    by auto
  then obtain r where "(t = ''email'' \<and> c ''email'' = Some r) \<or> (t = ''sms'' \<and> c ''phone'' = Some r)
           \<or> (t = ''push'' \<and> c ''device_id'' = Some r)" ..
  from process_loop_step_ok [OF nm this, of sys R oid tot tags] obtain e sysa where
    "process_loop R oid c tot (t # tags) sys =
       process_loop R oid c tot tags (sysa\<lparr>notifications_sent := notifications_sent sysa @ [e]\<rparr>)"
    by blast
  moreover from Cons.IH [of "sysa\<lparr>notifications_sent := notifications_sent sysa @ [e]\<rparr>"] Cons.prems
  obtain sys1 where "process_loop R oid c tot tags
      (sysa\<lparr>notifications_sent := notifications_sent sysa @ [e]\<rparr>) = (Inr (), sys1)"
    by auto
  ultimately show ?case by simp
qed

text \<open>The header of process_order: with the order's fields and the customer's name present,
  the call is the loop run after five prints, which leave the history alone.\<close>

lemma process_order_loop:
  assumes "order_id order_data = Some oid" "customer order_data = Some c"
    "total order_data = Some tot" "c ''name'' = Some n"
  shows "\<exists>sys0. notifications_sent sys0 = notifications_sent sys \<and>
           (\<forall>tags. process_order R order_data tags sys = process_loop R oid c tot tags sys0)"
proof -
  let ?sys0 = "print (replicate 50 (CHR ''='') @ nl) (print (''Total: $'' @ str_num R tot)
      (print (''Cliente: '' @ n) (print (''Procesando pedido #'' @ oid)
      (print (nl @ replicate 50 (CHR ''='')) sys))))"
  have "notifications_sent ?sys0 = notifications_sent sys"
    by (simp add: print_def)
  moreover have "\<forall>tags. process_order R order_data tags sys = process_loop R oid c tot tags ?sys0"
    using assms by (simp add: process_order_def Let_def)
  ultimately show ?thesis by blast
qed

subsection \<open>Claims on the notification pipeline\<close>

text \<open>
  Claim C1, as amended. Let the tag list be \<open>pre @ bad # post\<close> with \<open>bad\<close> not in
  \<open>{email, sms, push}\<close>, and let the order carry \<open>order_id\<close>, \<open>customer\<close> and \<open>total\<close>,
  its customer a \<open>name\<close> and the contact field of every tag of \<open>pre\<close> (so every tag of
  \<open>pre\<close> is supported and \<open>bad\<close> is the first unsupported one). Then \<open>process_order\<close>
  raises the unsupported-type \<open>ValueError\<close> for \<open>bad\<close>, in exactly the state in which
  processing \<open>pre\<close> alone ends: the history is the old history followed by one entry per tag
  of \<open>pre\<close>, in input order; \<open>bad\<close> adds no entry and nothing of \<open>post\<close> is processed.
\<close>

theorem process_order_unsupported_tag:
  assumes "order_id order_data = Some oid" and "customer order_data = Some c"
      and "total order_data = Some tot" and "c ''name'' = Some n"
      and pre: "\<forall>t\<in>set pre. (t = ''email'' \<and> c ''email'' \<noteq> None) \<or> (t = ''sms'' \<and> c ''phone'' \<noteq> None)
                 \<or> (t = ''push'' \<and> c ''device_id'' \<noteq> None)"
      and bad: "bad \<notin> {''email'', ''sms'', ''push''}"
  shows "\<exists>sys1 es.
           process_order R order_data pre sys = (Inr (), sys1) \<and>
           process_order R order_data (pre @ bad # post) sys =
             (Inl (ValueError (''Tipo de notificaci'' @ o_acute @ ''n no soportado: '' @ bad)), sys1) \<and>
           notifications_sent sys1 = notifications_sent sys @ es \<and>
           map (\<lambda>e. e ''type'') es = map Some pre"
proof -
  from process_order_loop [OF assms(1-4), of sys R] obtain sys0 where
    h0: "notifications_sent sys0 = notifications_sent sys" and
    po: "\<And>tags. process_order R order_data tags sys = process_loop R oid c tot tags sys0"
    by blast
  from process_loop_ok [OF assms(4) pre, of R oid tot sys0] obtain sys1 where
    ok: "process_loop R oid c tot pre sys0 = (Inr (), sys1)" ..
  from process_loop_history [OF ok] h0 obtain es where
    es: "notifications_sent sys1 = notifications_sent sys @ es"
        "map (\<lambda>e. e ''type'') es = map Some pre"
    by auto
  have "process_loop R oid c tot (pre @ bad # post) sys0 =
        process_loop R oid c tot (bad # post) sys1"
    using process_loop_append [OF ok] .
  also have "\<dots> = (Inl (ValueError (''Tipo de notificaci'' @ o_acute @ ''n no soportado: '' @ bad)), sys1)"
    by (simp add: get_sender_unsupported [OF bad])
  finally show ?thesis
    using ok es by (simp add: po)
qed

text \<open>
  The amended claim on the order of the specification's end-to-end scenario, with the
  tags \<open>email, sms, fax, push\<close>.
\<close>

theorem process_order_unsupported_tag_witness:
  "\<exists>sys1 es.
     process_order int_runtime
       \<lparr>order_id = Some ''ORD-001'',
        customer = Some (map_of [(''name'', ''Ana''), (''email'', ''a@x.com''),
                                 (''phone'', ''+1''), (''device_id'', ''D1'')]),
        total = Some 150\<rparr>
       [''email'', ''sms''] new_order_notification_system = (Inr (), sys1) \<and>
     process_order int_runtime
       \<lparr>order_id = Some ''ORD-001'',
        customer = Some (map_of [(''name'', ''Ana''), (''email'', ''a@x.com''),
                                 (''phone'', ''+1''), (''device_id'', ''D1'')]),
        total = Some 150\<rparr>
       ([''email'', ''sms''] @ ''fax'' # [''push'']) new_order_notification_system =
       (Inl (ValueError (''Tipo de notificaci'' @ o_acute @ ''n no soportado: '' @ ''fax'')), sys1) \<and>
     notifications_sent sys1 = notifications_sent new_order_notification_system @ es \<and>
     map (\<lambda>e. e ''type'') es = map Some [''email'', ''sms'']"
  by (rule process_order_unsupported_tag [where oid = "''ORD-001''" and n = "''Ana''"
        and tot = 150
        and c = "map_of [(''name'', ''Ana''), (''email'', ''a@x.com''),
                         (''phone'', ''+1''), (''device_id'', ''D1'')]"])
     simp_all

text \<open>
  Claim C1 as stated ranges over every order. It fails when a supported tag before the
  unsupported one needs a contact field the customer lacks: with a customer who has no
  \<open>phone\<close> and the tags \<open>email, sms, fax\<close>, the call raises \<open>KeyError('phone')\<close> at
  \<open>sms\<close> and never reaches \<open>fax\<close>.
\<close>

theorem process_order_unsupported_tag_counterexample:
  "''fax'' \<notin> {''email'', ''sms'', ''push''} \<and>
   fst (process_order int_runtime
          \<lparr>order_id = Some ''ORD-001'',
           customer = Some (map_of [(''name'', ''Ana''), (''email'', ''a@x.com'')]),
           total = Some 150\<rparr>
          [''email'', ''sms'', ''fax''] new_order_notification_system) = Inl (KeyError ''phone'')"
  by (simp add: process_order_def Let_def get_sender_def get_strategy_def
      NotificationType_of_def datetime_now_def)

text \<open>
  Claim C4, as amended. For a supported tag \<open>C\<close> and an order that carries \<open>order_id\<close>,
  \<open>customer\<close> and \<open>total\<close>, whose customer has a \<open>name\<close> and the field \<open>C\<close> needs
  (\<open>email\<close>, \<open>phone\<close>, \<open>device_id\<close>) with value \<open>r\<close>, \<open>process_order\<close> on \<open>[C]\<close> returns
  normally and appends exactly one entry, of type \<open>C\<close> and recipient \<open>r\<close>.
\<close>

theorem process_order_single_channel:
  assumes "order_id order_data = Some oid" and "customer order_data = Some c"
      and "total order_data = Some tot" and "c ''name'' = Some n"
      and fld: "(C = ''email'' \<and> c ''email'' = Some r) \<or> (C = ''sms'' \<and> c ''phone'' = Some r)
                 \<or> (C = ''push'' \<and> c ''device_id'' = Some r)"
  shows "\<exists>e sys1.
           process_order R order_data [C] sys = (Inr (), sys1) \<and>
           notifications_sent sys1 = notifications_sent sys @ [e] \<and>
           e ''type'' = Some C \<and> e ''to'' = Some r"
proof -
  from process_order_loop [OF assms(1-4), of sys R] obtain sys0 where
    h0: "notifications_sent sys0 = notifications_sent sys" and
    po: "\<And>tags. process_order R order_data tags sys = process_loop R oid c tot tags sys0"
    by blast
  from process_loop_step_ok [OF assms(4) fld, of sys0 R oid tot "[]"] obtain e sysa where
    e: "e ''to'' = Some r" "e ''type'' = Some C" and
    h: "notifications_sent sysa = notifications_sent sys0" and
    step: "process_loop R oid c tot [C] sys0 =
           (Inr (), sysa\<lparr>notifications_sent := notifications_sent sysa @ [e]\<rparr>)"
    by auto
  have "notifications_sent (sysa\<lparr>notifications_sent := notifications_sent sysa @ [e]\<rparr>) =
        notifications_sent sys @ [e]"
    by (simp add: h h0)
  with e step show ?thesis
    by (simp add: po)
qed

text \<open>
  The amended claim on the scenario order and the tag \<open>sms\<close>.
\<close>

theorem process_order_single_channel_witness:
  "\<exists>e sys1.
     process_order int_runtime
       \<lparr>order_id = Some ''ORD-001'',
        customer = Some (map_of [(''name'', ''Ana''), (''email'', ''a@x.com''),
                                 (''phone'', ''+1''), (''device_id'', ''D1'')]),
        total = Some 150\<rparr>
       [''sms''] new_order_notification_system = (Inr (), sys1) \<and>
     notifications_sent sys1 = notifications_sent new_order_notification_system @ [e] \<and>
     e ''type'' = Some ''sms'' \<and> e ''to'' = Some ''+1''"
  by (rule process_order_single_channel [where oid = "''ORD-001''" and n = "''Ana''"
        and tot = 150
        and c = "map_of [(''name'', ''Ana''), (''email'', ''a@x.com''),
                         (''phone'', ''+1''), (''device_id'', ''D1'')]"])
     simp_all

text \<open>
  Claim C4 as stated asks only for the contact field. A customer with an \<open>email\<close> and no
  \<open>name\<close> makes \<open>process_order\<close> raise \<open>KeyError('name')\<close> while it prints the header,
  before any sender runs, and nothing is appended.
\<close>

theorem process_order_single_channel_counterexample:
  "map_of [(''email'', ''a@x.com'')] ''email'' = Some ''a@x.com'' \<and>
   fst (process_order int_runtime
          \<lparr>order_id = Some ''ORD-001'', customer = Some (map_of [(''email'', ''a@x.com'')]),
           total = Some 150\<rparr>
          [''email''] new_order_notification_system) = Inl (KeyError ''name'') \<and>
   notifications_sent (snd (process_order int_runtime
          \<lparr>order_id = Some ''ORD-001'', customer = Some (map_of [(''email'', ''a@x.com'')]),
           total = Some 150\<rparr>
          [''email''] new_order_notification_system)) = []"
  by (simp add: process_order_def Let_def print_def new_order_notification_system_def)

text \<open>
  Claim C9. The strategy lookup returns a strategy for every tag; a tag outside
  \<open>{email, sms, push}\<close> gives the short-message strategy, whose message has the key
  \<open>body\<close> and no other; the tag \<open>email\<close> gives the email strategy, whose message has
  exactly \<open>subject\<close> and \<open>body\<close>.
\<close>

theorem get_strategy_fallback:
  "(\<exists>st. get_strategy tag = Inr st) \<and>
   (tag \<notin> {''email'', ''sms'', ''push''} \<longrightarrow> get_strategy tag = Inr ShortMessageStrategy) \<and>
   dom (create_message R ShortMessageStrategy oid n tot) = {''body''} \<and>
   get_strategy ''email'' = Inr EmailMessageStrategy \<and>
   dom (create_message R EmailMessageStrategy oid n tot) = {''subject'', ''body''}"
  by (auto simp: get_strategy_def NotificationType_of_def split: if_splits)

text \<open>
  The lookup on the unsupported tag \<open>fax\<close>.
\<close>

theorem get_strategy_fallback_witness:
  "''fax'' \<notin> {''email'', ''sms'', ''push''} \<and>
   get_strategy ''fax'' = Inr ShortMessageStrategy \<and>
   dom (create_message int_runtime ShortMessageStrategy ''ORD-001'' ''Ana'' 150) = {''body''} \<and>
   dom (create_message int_runtime EmailMessageStrategy ''ORD-001'' ''Ana'' 150)
     = {''subject'', ''body''}"
  using get_strategy_fallback [where tag = "''fax''" and R = int_runtime
      and oid = "''ORD-001''" and n = "''Ana''" and tot = 150]
  by simp

section \<open>Properties of exercise 2\<close>

subsection \<open>Generators, formatters and deliveries\<close>

text \<open>
  Python's \<open>sum\<close> adds from 0, left to right. Where addition is associative with unit 0
  (ints, exact decimals) that is the sum of the list whatever the order of additions.
\<close>

lemma foldl_plus_sum_list: "foldl (+) (a::'a::monoid_add) xs = a + sum_list xs"
  by (induction xs arbitrary: a) (simp_all add: add.assoc)

lemma sum_amounts_rows:
  "sum_amounts acc (map (\<lambda>(p, a). \<lparr>product = Some p, amount = Some a\<rparr>) rows) =
   Inr (foldl (+) acc (map snd rows))"
  by (induction rows arbitrary: acc) auto

lemma sales_detail_rows:
  "sales_detail R tx (map (\<lambda>(p, a). \<lparr>product = Some p, amount = Some a\<rparr>) rows) =
   Inr (tx @ concat (map (\<lambda>(p, a). ''  '' @ bullet @ '' Producto: '' @ p @ '' - $''
                                   @ fmt_2f R a @ nl) rows))"
  by (induction rows arbitrary: tx) auto

lemma sum_quantities_rows:
  "sum_quantities acc
     (map (\<lambda>(nm, q, cat). \<lparr>name = Some nm, quantity = Some q, category = cat\<rparr>) rows) =
   Inr (foldl (+) acc (map (\<lambda>(nm, q, cat). q) rows))"
  by (induction rows arbitrary: acc) auto

lemma inventory_detail_rows:
  "inventory_detail R tx
     (map (\<lambda>(nm, q, cat). \<lparr>name = Some nm, quantity = Some q, category = cat\<rparr>) rows) =
   Inr (tx @ concat (map (\<lambda>(nm, q, cat). ''  '' @ bullet @ '' '' @ nm @ '' (''
          @ (case cat of None \<Rightarrow> ''General'' | Some c \<Rightarrow> c) @ ''): ''
          @ str_num R q @ '' unidades'' @ nl) rows))"
  by (induction rows arbitrary: tx) (auto simp: get_category_def)

lemma sum_amounts_ok:
  "list_all (\<lambda>s. product s \<noteq> None \<and> amount s \<noteq> None) ss \<Longrightarrow> sum_amounts acc ss \<noteq> Inl e"
  by (induction ss arbitrary: acc) auto

lemma sales_detail_ok:
  "list_all (\<lambda>s. product s \<noteq> None \<and> amount s \<noteq> None) ss \<Longrightarrow> sales_detail R tx ss \<noteq> Inl e"
  by (induction ss arbitrary: tx) auto

lemma sum_quantities_ok:
  "list_all (\<lambda>i. name i \<noteq> None \<and> quantity i \<noteq> None) its \<Longrightarrow> sum_quantities acc its \<noteq> Inl e"
  by (induction its arbitrary: acc) auto

lemma inventory_detail_ok:
  "list_all (\<lambda>i. name i \<noteq> None \<and> quantity i \<noteq> None) its \<Longrightarrow> inventory_detail R tx its \<noteq> Inl e"
  by (induction its arbitrary: tx) auto

lemma sales_detail_Inr:
  "sales_detail R tx ss = Inr t \<Longrightarrow> list_all (\<lambda>s. product s \<noteq> None \<and> amount s \<noteq> None) ss"
  by (induction ss arbitrary: tx) (auto split: option.splits)

lemma inventory_detail_Inr:
  "inventory_detail R tx its = Inr t \<Longrightarrow> list_all (\<lambda>i. name i \<noteq> None \<and> quantity i \<noteq> None) its"
  by (induction its arbitrary: tx) (auto split: option.splits)

lemma sum_amounts_error: "sum_amounts acc ss = Inl e \<Longrightarrow> \<exists>k. e = KeyError k"
  by (induction ss arbitrary: acc) (auto split: option.splits)

lemma sales_detail_error: "sales_detail R tx ss = Inl e \<Longrightarrow> \<exists>k. e = KeyError k"
  by (induction ss arbitrary: tx) (auto split: option.splits)

lemma sum_quantities_error: "sum_quantities acc its = Inl e \<Longrightarrow> \<exists>k. e = KeyError k"
  by (induction its arbitrary: acc) (auto split: option.splits)

lemma inventory_detail_error: "inventory_detail R tx its = Inl e \<Longrightarrow> \<exists>k. e = KeyError k"
  by (induction its arbitrary: tx) (auto split: option.splits)

text \<open>A generator only reads the clock, once, whatever it returns.\<close>

lemma generate_world:
  "snd (generate R g data w) = w\<lparr>clock_reads := Suc (clock_reads w)\<rparr>"
  by (cases g)
     (simp_all add: Let_def datetime_now_def split: option.splits sum.splits)

lemma generate_error:
  "fst (generate R g data w) = Inl e \<Longrightarrow> \<exists>k. e = KeyError k"
  by (cases g)
     (auto simp: Let_def datetime_now_def split: option.splits sum.splits
        dest: sum_amounts_error sales_detail_error sum_quantities_error inventory_detail_error)

lemma generate_ok:
  assumes "required_fields_present g data"
  shows "\<exists>content. fst (generate R g data w) = Inr content"
proof (cases g)
  case SalesGenerator
  with assms obtain ss where ss: "sales data = Some ss"
    and all: "list_all (\<lambda>s. product s \<noteq> None \<and> amount s \<noteq> None) ss"
    by (auto split: option.splits)
  show ?thesis
    by (simp add: SalesGenerator Let_def datetime_now_def ss sum_amounts_ok [OF all]
        sales_detail_ok [OF all] split: sum.splits)
next
  case InventoryGenerator
  with assms obtain its where its: "items data = Some its"
    and all: "list_all (\<lambda>i. name i \<noteq> None \<and> quantity i \<noteq> None) its"
    by (auto split: option.splits)
  show ?thesis
    by (simp add: InventoryGenerator Let_def datetime_now_def its sum_quantities_ok [OF all]
        inventory_detail_ok [OF all] split: sum.splits)
next
  case FinancialGenerator
  with assms show ?thesis
    by (auto simp: Let_def datetime_now_def)
qed

lemma generate_Inr:
  assumes "fst (generate R g data w) = Inr content"
  shows "required_fields_present g data"
proof (cases g)
  case SalesGenerator
  with assms show ?thesis
    by (auto simp: Let_def datetime_now_def split: option.splits sum.splits
        dest: sales_detail_Inr)
next
  case InventoryGenerator
  with assms show ?thesis
    by (auto simp: Let_def datetime_now_def split: option.splits sum.splits
        dest: inventory_detail_Inr)
next
  case FinancialGenerator
  with assms show ?thesis
    by (auto simp: Let_def datetime_now_def split: option.splits)
qed

lemma get_generator_Some:
  "get_generator rt = Some g \<longleftrightarrow>
     (rt = ''sales'' \<and> g = SalesGenerator) \<or> (rt = ''inventory'' \<and> g = InventoryGenerator)
     \<or> (rt = ''financial'' \<and> g = FinancialGenerator)"
  by (auto simp: get_generator_def)

lemma format_history:
  "reports_generated (snd (format f tx sys)) = reports_generated sys"
  by (cases f) (simp_all add: Let_def print_def)

lemma format_document:
  "fst (format (get_formatter fm) tx w) =
     (if fm = ''pdf'' then ''[PDF FORMAT]'' @ nl @ tx @ nl @ ''[END PDF]''
      else if fm = ''excel'' then ''[EXCEL FORMAT]'' @ nl @ tx @ nl @ ''[END EXCEL]''
      else ''<html><body><pre>'' @ tx @ ''</pre></body></html>'')"
  by (simp add: get_formatter_def Let_def)

text \<open>With the meta data \<open>generate_report\<close> builds, no delivery can fail.\<close>

lemma deliver_ok:
  "\<exists>w1. deliver R d doc [''type'' \<mapsto> rt, ''format'' \<mapsto> fm] w = (Inr (), w1) \<and>
        reports_generated w1 = reports_generated w"
  by (cases d) (simp_all add: Let_def print_def datetime_now_def)

text \<open>The successful run of \<open>generate_report\<close>, stage by stage.\<close>

lemma generate_report_ok:
  assumes g: "get_generator rt = Some g"
      and gen: "fst (generate R g data sys) = Inr content"
  shows "\<exists>ts sys1. generate_report R rt data fm dm sys =
           (Inr (Some (fst (format (get_formatter fm) content
                              (sys\<lparr>clock_reads := Suc (clock_reads sys)\<rparr>)))), sys1) \<and>
         reports_generated sys1 = reports_generated sys @
           [[''type'' \<mapsto> rt, ''format'' \<mapsto> fm, ''delivery'' \<mapsto> dm, ''timestamp'' \<mapsto> ts]]"
proof -
  let ?w1 = "sys\<lparr>clock_reads := Suc (clock_reads sys)\<rparr>"
  have gen': "generate R g data sys = (Inr content, ?w1)"
    using gen generate_world [of R g data sys] by (cases "generate R g data sys") simp
  obtain doc w2 where f: "format (get_formatter fm) content ?w1 = (doc, w2)"
    by (cases "format (get_formatter fm) content ?w1")
  have h2: "reports_generated w2 = reports_generated sys"
    using format_history [of "get_formatter fm" content ?w1] f by simp
  from deliver_ok [of R "get_delivery dm" doc rt fm w2] obtain w3 where
    d: "deliver R (get_delivery dm) doc [''type'' \<mapsto> rt, ''format'' \<mapsto> fm] w2 = (Inr (), w3)"
    and h3: "reports_generated w3 = reports_generated w2"
    by blast
  show ?thesis
    by (simp add: generate_report_def g gen' f d h2 h3 Let_def datetime_now_def print_def)
       blast
qed

subsection \<open>Claims on the report pipeline\<close>

text \<open>
  Claim C2. For a report type outside \<open>{sales, inventory, financial}\<close>,
  \<open>generate_report\<close> returns \<open>None\<close> without raising, and leaves the history as it was.
  No stage ran: the clock was not read (every generator reads it) and the console got the
  error line alone (every formatter and every delivery prints).
\<close>

theorem generate_report_unknown_type:
  assumes "report_type \<notin> {''sales'', ''inventory'', ''financial''}"
  shows "\<exists>sys1. generate_report R report_type data output_format delivery_method sys
                  = (Inr None, sys1) \<and>
               reports_generated sys1 = reports_generated sys \<and>
               length (reports_generated sys1) = length (reports_generated sys) \<and>
               clock_reads sys1 = clock_reads sys \<and>
               stdout sys1 = stdout sys @ [''Error: No se pudo generar el reporte'']"
  using assms by (simp add: generate_report_def get_generator_def print_def)

text \<open>
  The unknown report type \<open>weekly\<close> on a new system.
\<close>

theorem generate_report_unknown_type_witness:
  "\<exists>sys1. generate_report int_runtime ''weekly''
            \<lparr>period = None, sales = None, items = None, income = Some 50000,
             expenses = Some 32000\<rparr> ''pdf'' ''email'' new_report_system = (Inr None, sys1) \<and>
          reports_generated sys1 = reports_generated new_report_system \<and>
          length (reports_generated sys1) = length (reports_generated new_report_system) \<and>
          clock_reads sys1 = clock_reads new_report_system \<and>
          stdout sys1 = stdout new_report_system @ [''Error: No se pudo generar el reporte'']"
  by (rule generate_report_unknown_type) simp

text \<open>
  Claim C3. When the generator of a recognized report type fails, the failure is a
  \<open>KeyError\<close> (a field the generator reads is absent), \<open>generate_report\<close> raises that
  same error, the history is unchanged, and so is the console: neither the formatter nor
  the delivery ran.
\<close>

theorem generate_report_generator_failure:
  assumes g: "get_generator report_type = Some g"
      and fail: "fst (generate R g data sys) = Inl e"
  shows "(\<exists>k. e = KeyError k) \<and>
         fst (generate_report R report_type data output_format delivery_method sys) = Inl e \<and>
         reports_generated (snd (generate_report R report_type data output_format
                                   delivery_method sys)) = reports_generated sys \<and>
         stdout (snd (generate_report R report_type data output_format
                        delivery_method sys)) = stdout sys"
proof -
  have "generate R g data sys = (Inl e, sys\<lparr>clock_reads := Suc (clock_reads sys)\<rparr>)"
    using fail generate_world [of R g data sys] by (cases "generate R g data sys") simp
  then have "generate_report R report_type data output_format delivery_method sys =
      (Inl e, sys\<lparr>clock_reads := Suc (clock_reads sys)\<rparr>)"
    by (simp add: generate_report_def g)
  then show ?thesis
    using generate_error [OF fail] by simp
qed

text \<open>
  A sales report asked of a payload with no \<open>sales\<close> key.
\<close>

theorem generate_report_generator_failure_witness:
  "(\<exists>k. KeyError ''sales'' = KeyError k) \<and>
   fst (generate_report int_runtime ''sales''
          \<lparr>period = None, sales = None, items = None, income = Some 50000,
           expenses = Some 32000\<rparr> ''pdf'' ''email'' new_report_system)
     = Inl (KeyError ''sales'') \<and>
   reports_generated (snd (generate_report int_runtime ''sales''
          \<lparr>period = None, sales = None, items = None, income = Some 50000,
           expenses = Some 32000\<rparr> ''pdf'' ''email'' new_report_system))
     = reports_generated new_report_system \<and>
   stdout (snd (generate_report int_runtime ''sales''
          \<lparr>period = None, sales = None, items = None, income = Some 50000,
           expenses = Some 32000\<rparr> ''pdf'' ''email'' new_report_system))
     = stdout new_report_system"
  by (rule generate_report_generator_failure [where g = SalesGenerator])
     (simp_all add: get_generator_def Let_def datetime_now_def)

text \<open>
  Claim C5. For each of the report types \<open>sales\<close>, \<open>inventory\<close> and \<open>financial\<close>, with
  \<open>g\<close> the generator of that type and a payload that has the fields \<open>g\<close> reads,
  \<open>generate_report\<close> returns the content generated by \<open>g\<close> wrapped in the envelope of the
  requested format (the HTML wrapper for \<open>html\<close> and for any other tag), and the history
  grows by exactly one entry.
\<close>

theorem generate_report_success:
  assumes rt: "(report_type = ''sales'' \<and> g = SalesGenerator) \<or>
               (report_type = ''inventory'' \<and> g = InventoryGenerator) \<or>
               (report_type = ''financial'' \<and> g = FinancialGenerator)"
      and wf: "required_fields_present g data"
  shows "\<exists>content sys1 entry.
           fst (generate R g data sys) = Inr content \<and>
           generate_report R report_type data output_format delivery_method sys =
             (Inr (Some (if output_format = ''pdf''
                           then ''[PDF FORMAT]'' @ nl @ content @ nl @ ''[END PDF]''
                         else if output_format = ''excel''
                           then ''[EXCEL FORMAT]'' @ nl @ content @ nl @ ''[END EXCEL]''
                         else ''<html><body><pre>'' @ content @ ''</pre></body></html>'')),
              sys1) \<and>
           reports_generated sys1 = reports_generated sys @ [entry] \<and>
           length (reports_generated sys1) = length (reports_generated sys) + 1"
proof -
  from rt have g: "get_generator report_type = Some g"
    by (simp only: get_generator_Some)
  from generate_ok [OF wf, of R sys] obtain content where
    c: "fst (generate R g data sys) = Inr content" ..
  from generate_report_ok [OF g c, of output_format delivery_method] obtain ts sys1 where
    "generate_report R report_type data output_format delivery_method sys =
       (Inr (Some (fst (format (get_formatter output_format) content
                          (sys\<lparr>clock_reads := Suc (clock_reads sys)\<rparr>)))), sys1)"
    "reports_generated sys1 = reports_generated sys @
       [[''type'' \<mapsto> report_type, ''format'' \<mapsto> output_format,
         ''delivery'' \<mapsto> delivery_method, ''timestamp'' \<mapsto> ts]]"
    by blast
  with c show ?thesis
    by (simp add: format_document)
qed

text \<open>
  One payload with the fields of all three generators: a sales report in PDF, an
  inventory report in Excel and a financial report in HTML.
\<close>

theorem generate_report_success_witness:
  "(\<exists>content sys1 entry.
      fst (generate int_runtime SalesGenerator
             \<lparr>period = None,
              sales = Some [\<lparr>product = Some ''Laptop'', amount = Some 900\<rparr>],
              items = Some [\<lparr>name = Some ''Mouse'', quantity = Some 50, category = None\<rparr>],
              income = Some 50000, expenses = Some 32000\<rparr> new_report_system) = Inr content \<and>
      generate_report int_runtime ''sales''
        \<lparr>period = None,
         sales = Some [\<lparr>product = Some ''Laptop'', amount = Some 900\<rparr>],
         items = Some [\<lparr>name = Some ''Mouse'', quantity = Some 50, category = None\<rparr>],
         income = Some 50000, expenses = Some 32000\<rparr> ''pdf'' ''email'' new_report_system =
        (Inr (Some (''[PDF FORMAT]'' @ nl @ content @ nl @ ''[END PDF]'')), sys1) \<and>
      reports_generated sys1 = reports_generated new_report_system @ [entry] \<and>
      length (reports_generated sys1) = length (reports_generated new_report_system) + 1) \<and>
   (\<exists>content sys1 entry.
      fst (generate int_runtime InventoryGenerator
             \<lparr>period = None,
              sales = Some [\<lparr>product = Some ''Laptop'', amount = Some 900\<rparr>],
              items = Some [\<lparr>name = Some ''Mouse'', quantity = Some 50, category = None\<rparr>],
              income = Some 50000, expenses = Some 32000\<rparr> new_report_system) = Inr content \<and>
      generate_report int_runtime ''inventory''
        \<lparr>period = None,
         sales = Some [\<lparr>product = Some ''Laptop'', amount = Some 900\<rparr>],
         items = Some [\<lparr>name = Some ''Mouse'', quantity = Some 50, category = None\<rparr>],
         income = Some 50000, expenses = Some 32000\<rparr> ''excel'' ''download'' new_report_system =
        (Inr (Some (''[EXCEL FORMAT]'' @ nl @ content @ nl @ ''[END EXCEL]'')), sys1) \<and>
      reports_generated sys1 = reports_generated new_report_system @ [entry] \<and>
      length (reports_generated sys1) = length (reports_generated new_report_system) + 1) \<and>
   (\<exists>content sys1 entry.
      fst (generate int_runtime FinancialGenerator
             \<lparr>period = None,
              sales = Some [\<lparr>product = Some ''Laptop'', amount = Some 900\<rparr>],
              items = Some [\<lparr>name = Some ''Mouse'', quantity = Some 50, category = None\<rparr>],
              income = Some 50000, expenses = Some 32000\<rparr> new_report_system) = Inr content \<and>
      generate_report int_runtime ''financial''
        \<lparr>period = None,
         sales = Some [\<lparr>product = Some ''Laptop'', amount = Some 900\<rparr>],
         items = Some [\<lparr>name = Some ''Mouse'', quantity = Some 50, category = None\<rparr>],
         income = Some 50000, expenses = Some 32000\<rparr> ''html'' ''cloud'' new_report_system =
        (Inr (Some (''<html><body><pre>'' @ content @ ''</pre></body></html>'')), sys1) \<and>
      reports_generated sys1 = reports_generated new_report_system @ [entry] \<and>
      length (reports_generated sys1) = length (reports_generated new_report_system) + 1)"
proof -
  let ?d = "\<lparr>period = None,
             sales = Some [\<lparr>product = Some ''Laptop'', amount = Some (900::int)\<rparr>],
             items = Some [\<lparr>name = Some ''Mouse'', quantity = Some 50, category = None\<rparr>],
             income = Some 50000, expenses = Some 32000\<rparr>"
  have wf: "required_fields_present SalesGenerator ?d"
    "required_fields_present InventoryGenerator ?d"
    "required_fields_present FinancialGenerator ?d"
    by simp_all
  have s: "(''sales'' = ''sales'' \<and> SalesGenerator = SalesGenerator) \<or>
           (''sales'' = ''inventory'' \<and> SalesGenerator = InventoryGenerator) \<or>
           (''sales'' = ''financial'' \<and> SalesGenerator = FinancialGenerator)"
    by simp
  have i: "(''inventory'' = ''sales'' \<and> InventoryGenerator = SalesGenerator) \<or>
           (''inventory'' = ''inventory'' \<and> InventoryGenerator = InventoryGenerator) \<or>
           (''inventory'' = ''financial'' \<and> InventoryGenerator = FinancialGenerator)"
    by simp
  have f: "(''financial'' = ''sales'' \<and> FinancialGenerator = SalesGenerator) \<or>
           (''financial'' = ''inventory'' \<and> FinancialGenerator = InventoryGenerator) \<or>
           (''financial'' = ''financial'' \<and> FinancialGenerator = FinancialGenerator)"
    by simp
  show ?thesis
    using generate_report_success [OF s wf(1), of int_runtime new_report_system
            "''pdf''" "''email''"]
          generate_report_success [OF i wf(2), of int_runtime new_report_system
            "''excel''" "''download''"]
          generate_report_success [OF f wf(3), of int_runtime new_report_system
            "''html''" "''cloud''"]
    by simp
qed

text \<open>
  Claim C6. For a payload whose \<open>sales\<close> is a sequence of sales
  \<open>{product: p, amount: a}\<close>, the sales generator returns a text that ends with: the total
  line, showing with two decimals the sum of the amounts (Python's \<open>sum\<close>: added left to
  right from 0); the count line, showing the length of the sequence; and, after the
  detail header, exactly one line per sale, in input order.
\<close>

theorem sales_generator_total:
  assumes "sales data = Some (map (\<lambda>(p, a). \<lparr>product = Some p, amount = Some a\<rparr>) rows)"
  shows "\<exists>pre. fst (generate R SalesGenerator data w) =
           Inr (pre @ ''Total de ventas: $'' @ fmt_2f R (foldl (+) 0 (map snd rows)) @ nl
                @ ''N'' @ u_acute @ ''mero de transacciones: '' @ str_nat (length rows) @ nl @ nl
                @ ''Detalle de ventas:'' @ nl
                @ replicate 60 (CHR ''-'') @ nl
                @ concat (map (\<lambda>(p, a). ''  '' @ bullet @ '' Producto: '' @ p @ '' - $''
                                          @ fmt_2f R a @ nl) rows))"
proof -
  let ?ts = "strftime R (now R (clock_reads w)) ''%Y-%m-%d %H:%M:%S''"
  let ?hd = "replicate 60 (CHR ''='') @ nl @ ''           REPORTE DE VENTAS'' @ nl
      @ replicate 60 (CHR ''='') @ nl @ ''Fecha de generaci'' @ o_acute @ ''n: '' @ ?ts @ nl @ nl"
  let ?pre = "case period data of Some p \<Rightarrow> ?hd @ ''Periodo: '' @ p @ nl | None \<Rightarrow> ?hd"
  have main: "fst (generate R SalesGenerator data w) =
           Inr (?pre @ ''Total de ventas: $'' @ fmt_2f R (foldl (+) 0 (map snd rows)) @ nl
                @ ''N'' @ u_acute @ ''mero de transacciones: '' @ str_nat (length rows) @ nl @ nl
                @ ''Detalle de ventas:'' @ nl
                @ replicate 60 (CHR ''-'') @ nl
                @ concat (map (\<lambda>(p, a). ''  '' @ bullet @ '' Producto: '' @ p @ '' - $''
                                          @ fmt_2f R a @ nl) rows))"
    by (cases "period data")
       (simp_all only: generate.simps Let_def datetime_now_def prod.case assms option.case
          sum_amounts_rows sum.case sales_detail_rows fst_conv append_assoc length_map)
  show ?thesis
    by (rule exI [of _ ?pre]) (rule main)
qed

text \<open>
  Two sales of 900 and 25.
\<close>

theorem sales_generator_total_witness:
  "\<exists>pre. fst (generate int_runtime SalesGenerator
            \<lparr>period = Some ''Enero 2024'',
             sales = Some [\<lparr>product = Some ''Laptop'', amount = Some 900\<rparr>,
                           \<lparr>product = Some ''Mouse'', amount = Some 25\<rparr>],
             items = None, income = None, expenses = None\<rparr> new_report_system) =
     Inr (pre @ ''Total de ventas: $925.00'' @ nl
          @ ''N'' @ u_acute @ ''mero de transacciones: 2'' @ nl @ nl
          @ ''Detalle de ventas:'' @ nl
          @ replicate 60 (CHR ''-'') @ nl
          @ ''  '' @ bullet @ '' Producto: Laptop - $900.00'' @ nl
          @ ''  '' @ bullet @ '' Producto: Mouse - $25.00'' @ nl)"
proof -
  let ?d = "\<lparr>period = Some ''Enero 2024'',
             sales = Some [\<lparr>product = Some ''Laptop'', amount = Some (900::int)\<rparr>,
                           \<lparr>product = Some ''Mouse'', amount = Some 25\<rparr>],
             items = None, income = None, expenses = None\<rparr>"
  have rows: "sales ?d = Some (map (\<lambda>(p, a). \<lparr>product = Some p, amount = Some a\<rparr>)
                  [(''Laptop'', 900), (''Mouse'', 25)])"
    by simp
  from sales_generator_total [OF rows, of int_runtime new_report_system] obtain pre where
    "fst (generate int_runtime SalesGenerator ?d new_report_system) =
       Inr (pre @ ''Total de ventas: $''
            @ fmt_2f int_runtime (foldl (+) 0 (map snd [(''Laptop'', 900::int), (''Mouse'', 25)])) @ nl
            @ ''N'' @ u_acute @ ''mero de transacciones: ''
            @ str_nat (length [(''Laptop'', 900::int), (''Mouse'', 25)]) @ nl @ nl
            @ ''Detalle de ventas:'' @ nl
            @ replicate 60 (CHR ''-'') @ nl
            @ concat (map (\<lambda>(p, a). ''  '' @ bullet @ '' Producto: '' @ p @ '' - $''
                                      @ fmt_2f int_runtime a @ nl)
                       [(''Laptop'', 900::int), (''Mouse'', 25)]))" ..
  then have "fst (generate int_runtime SalesGenerator ?d new_report_system) =
     Inr (pre @ ''Total de ventas: $925.00'' @ nl
          @ ''N'' @ u_acute @ ''mero de transacciones: 2'' @ nl @ nl
          @ ''Detalle de ventas:'' @ nl
          @ replicate 60 (CHR ''-'') @ nl
          @ ''  '' @ bullet @ '' Producto: Laptop - $900.00'' @ nl
          @ ''  '' @ bullet @ '' Producto: Mouse - $25.00'' @ nl)"
    by (simp add: int_runtime_def str_int_def str_nat.simps)
  then show ?thesis
    by (rule exI [of _ pre])
qed

text \<open>
  Claim C7. For a payload whose \<open>items\<close> is a sequence of items with a name, a
  quantity and an optional category, the inventory generator's text reports the sum of
  the quantities and the number of distinct category labels, an item without category
  counting under \<open>General\<close>.
\<close>

theorem inventory_generator_totals:
  assumes "items data = Some (map (\<lambda>(nm, q, cat).
             \<lparr>name = Some nm, quantity = Some q, category = cat\<rparr>) rows)"
  shows "\<exists>pre. fst (generate R InventoryGenerator data w) =
           Inr (pre @ ''Total de productos: ''
                @ str_num R (foldl (+) 0 (map (\<lambda>(nm, q, cat). q) rows)) @ nl
                @ ''Categor'' @ i_acute @ ''as: ''
                @ str_nat (card (set (map (\<lambda>(nm, q, cat).
                     case cat of None \<Rightarrow> ''General'' | Some c \<Rightarrow> c) rows))) @ nl @ nl
                @ ''Inventario actual:'' @ nl
                @ replicate 60 (CHR ''-'') @ nl
                @ concat (map (\<lambda>(nm, q, cat). ''  '' @ bullet @ '' '' @ nm @ '' (''
                     @ (case cat of None \<Rightarrow> ''General'' | Some c \<Rightarrow> c) @ ''): ''
                     @ str_num R q @ '' unidades'' @ nl) rows))"
proof -
  let ?its = "map (\<lambda>(nm, q, cat). \<lparr>name = Some nm, quantity = Some q, category = cat\<rparr>) rows"
  let ?ts = "strftime R (now R (clock_reads w)) ''%Y-%m-%d %H:%M:%S''"
  let ?pre = "replicate 60 (CHR ''='') @ nl @ ''           REPORTE DE INVENTARIO'' @ nl
      @ replicate 60 (CHR ''='') @ nl @ ''Fecha de generaci'' @ o_acute @ ''n: '' @ ?ts @ nl @ nl"
  have cats: "map get_category ?its =
      map (\<lambda>(nm, q, cat). case cat of None \<Rightarrow> ''General'' | Some c \<Rightarrow> c) rows"
    by (simp add: get_category_def split_def)
  have main: "fst (generate R InventoryGenerator data w) =
           Inr (?pre @ ''Total de productos: ''
                @ str_num R (foldl (+) 0 (map (\<lambda>(nm, q, cat). q) rows)) @ nl
                @ ''Categor'' @ i_acute @ ''as: ''
                @ str_nat (card (set (map (\<lambda>(nm, q, cat).
                     case cat of None \<Rightarrow> ''General'' | Some c \<Rightarrow> c) rows))) @ nl @ nl
                @ ''Inventario actual:'' @ nl
                @ replicate 60 (CHR ''-'') @ nl
                @ concat (map (\<lambda>(nm, q, cat). ''  '' @ bullet @ '' '' @ nm @ '' (''
                     @ (case cat of None \<Rightarrow> ''General'' | Some c \<Rightarrow> c) @ ''): ''
                     @ str_num R q @ '' unidades'' @ nl) rows))"
    by (simp only: generate.simps Let_def datetime_now_def prod.case assms option.case
          sum_quantities_rows sum.case inventory_detail_rows fst_conv append_assoc cats)
  show ?thesis
    by (rule exI [of _ ?pre]) (rule main)
qed

text \<open>
  Four items, two of them without category: 100 units, 3 categories.
\<close>

theorem inventory_generator_totals_witness:
  "\<exists>pre. fst (generate int_runtime InventoryGenerator
            \<lparr>period = None, sales = None,
             items = Some [\<lparr>name = Some ''Laptop'', quantity = Some 15,
                             category = Some ''Computadoras''\<rparr>,
                           \<lparr>name = Some ''Mouse'', quantity = Some 50,
                             category = Some ''Accesorios''\<rparr>,
                           \<lparr>name = Some ''Cable'', quantity = Some 30, category = None\<rparr>,
                           \<lparr>name = Some ''Funda'', quantity = Some 5, category = None\<rparr>],
             income = None, expenses = None\<rparr> new_report_system) =
     Inr (pre @ ''Total de productos: 100'' @ nl
          @ ''Categor'' @ i_acute @ ''as: 3'' @ nl @ nl
          @ ''Inventario actual:'' @ nl
          @ replicate 60 (CHR ''-'') @ nl
          @ ''  '' @ bullet @ '' Laptop (Computadoras): 15 unidades'' @ nl
          @ ''  '' @ bullet @ '' Mouse (Accesorios): 50 unidades'' @ nl
          @ ''  '' @ bullet @ '' Cable (General): 30 unidades'' @ nl
          @ ''  '' @ bullet @ '' Funda (General): 5 unidades'' @ nl)"
proof -
  let ?d = "\<lparr>period = None, sales = None,
             items = Some [\<lparr>name = Some ''Laptop'', quantity = Some (15::int),
                             category = Some ''Computadoras''\<rparr>,
                           \<lparr>name = Some ''Mouse'', quantity = Some 50,
                             category = Some ''Accesorios''\<rparr>,
                           \<lparr>name = Some ''Cable'', quantity = Some 30, category = None\<rparr>,
                           \<lparr>name = Some ''Funda'', quantity = Some 5, category = None\<rparr>],
             income = None, expenses = None\<rparr>"
  let ?rows = "[(''Laptop'', 15::int, Some ''Computadoras''), (''Mouse'', 50, Some ''Accesorios''),
                (''Cable'', 30, None), (''Funda'', 5, None)]"
  have rows: "items ?d = Some (map (\<lambda>(nm, q, cat).
                  \<lparr>name = Some nm, quantity = Some q, category = cat\<rparr>) ?rows)"
    by simp
  from inventory_generator_totals [OF rows, of int_runtime new_report_system] obtain pre where
    "fst (generate int_runtime InventoryGenerator ?d new_report_system) =
       Inr (pre @ ''Total de productos: ''
            @ str_num int_runtime (foldl (+) 0 (map (\<lambda>(nm, q, cat). q) ?rows)) @ nl
            @ ''Categor'' @ i_acute @ ''as: ''
            @ str_nat (card (set (map (\<lambda>(nm, q, cat).
                 case cat of None \<Rightarrow> ''General'' | Some c \<Rightarrow> c) ?rows))) @ nl @ nl
            @ ''Inventario actual:'' @ nl
            @ replicate 60 (CHR ''-'') @ nl
            @ concat (map (\<lambda>(nm, q, cat). ''  '' @ bullet @ '' '' @ nm @ '' (''
                 @ (case cat of None \<Rightarrow> ''General'' | Some c \<Rightarrow> c) @ ''): ''
                 @ str_num int_runtime q @ '' unidades'' @ nl) ?rows))" ..
  then have "fst (generate int_runtime InventoryGenerator ?d new_report_system) =
     Inr (pre @ ''Total de productos: 100'' @ nl
          @ ''Categor'' @ i_acute @ ''as: 3'' @ nl @ nl
          @ ''Inventario actual:'' @ nl
          @ replicate 60 (CHR ''-'') @ nl
          @ ''  '' @ bullet @ '' Laptop (Computadoras): 15 unidades'' @ nl
          @ ''  '' @ bullet @ '' Mouse (Accesorios): 50 unidades'' @ nl
          @ ''  '' @ bullet @ '' Cable (General): 30 unidades'' @ nl
          @ ''  '' @ bullet @ '' Funda (General): 5 unidades'' @ nl)"
    by (simp add: int_runtime_def str_int_def str_nat.simps)
  then show ?thesis
    by (rule exI [of _ pre])
qed

text \<open>
  Claim C8. An output format outside \<open>{pdf, excel, html}\<close> is given the HTML formatter,
  so formatting produces the HTML envelope; a delivery method outside
  \<open>{email, download, cloud}\<close> is given the download delivery. Both lookups are total:
  the source has no raising branch, and the functions \<open>get_formatter\<close> and
  \<open>get_delivery\<close> return a formatter and a delivery for every string.
\<close>

theorem factory_fallbacks:
  "(output_format \<notin> {''pdf'', ''excel'', ''html''} \<longrightarrow>
      get_formatter output_format = HtmlFormatter \<and>
      fst (format (get_formatter output_format) tx w) =
        ''<html><body><pre>'' @ tx @ ''</pre></body></html>'') \<and>
   (delivery_method \<notin> {''email'', ''download'', ''cloud''} \<longrightarrow>
      get_delivery delivery_method = DownloadDelivery)"
  by (simp add: get_formatter_def get_delivery_def Let_def)

text \<open>
  The unknown tags \<open>docx\<close> and \<open>ftp\<close>.
\<close>

theorem factory_fallbacks_witness:
  "''docx'' \<notin> {''pdf'', ''excel'', ''html''} \<and>
   get_formatter ''docx'' = HtmlFormatter \<and>
   fst (format (get_formatter ''docx'') ''x'' new_report_system)
     = ''<html><body><pre>'' @ ''x'' @ ''</pre></body></html>'' \<and>
   ''ftp'' \<notin> {''email'', ''download'', ''cloud''} \<and>
   get_delivery ''ftp'' = DownloadDelivery"
  using factory_fallbacks [where output_format = "''docx''" and delivery_method = "''ftp''"
      and tx = "''x''" and w = new_report_system]
  by simp

text \<open>
  Claim C10. Whenever \<open>generate_report\<close> returns a document, the entry it appended
  records the caller's report type, output format and delivery method as given; when the
  format tag is not one of \<open>pdf, excel, html\<close>, the document is the generator's content
  in the HTML envelope, and the entry still records the unrecognized tag.
\<close>

theorem generate_report_records_tags:
  assumes run: "generate_report R report_type data output_format delivery_method sys
                  = (Inr (Some doc), sys1)"
  shows "\<exists>entry g content.
           reports_generated sys1 = reports_generated sys @ [entry] \<and>
           entry ''type'' = Some report_type \<and>
           entry ''format'' = Some output_format \<and>
           entry ''delivery'' = Some delivery_method \<and>
           get_generator report_type = Some g \<and>
           fst (generate R g data sys) = Inr content \<and>
           (output_format \<notin> {''pdf'', ''excel'', ''html''} \<longrightarrow>
              doc = ''<html><body><pre>'' @ content @ ''</pre></body></html>'')"
proof -
  from run obtain g where g: "get_generator report_type = Some g"
    by (cases "get_generator report_type") (auto simp: generate_report_def)
  from run g obtain content where c: "fst (generate R g data sys) = Inr content"
    by (cases "generate R g data sys"; cases "fst (generate R g data sys)")
       (auto simp: generate_report_def)
  from generate_report_ok [OF g c, of output_format delivery_method] run obtain ts where
    "doc = fst (format (get_formatter output_format) content
                  (sys\<lparr>clock_reads := Suc (clock_reads sys)\<rparr>))"
    "reports_generated sys1 = reports_generated sys @
       [[''type'' \<mapsto> report_type, ''format'' \<mapsto> output_format,
         ''delivery'' \<mapsto> delivery_method, ''timestamp'' \<mapsto> ts]]"
    by auto
  with g c show ?thesis
    by (simp add: format_document)
qed

text \<open>
  A financial report asked in the unknown format \<open>docx\<close> by the unknown delivery
  \<open>ftp\<close>.
\<close>

theorem generate_report_records_tags_witness:
  "\<exists>doc sys1 entry content.
     generate_report int_runtime ''financial''
       \<lparr>period = None, sales = None, items = None, income = Some 50000,
        expenses = Some 32000\<rparr> ''docx'' ''ftp'' new_report_system = (Inr (Some doc), sys1) \<and>
     reports_generated sys1 = reports_generated new_report_system @ [entry] \<and>
     entry ''type'' = Some ''financial'' \<and>
     entry ''format'' = Some ''docx'' \<and>
     entry ''delivery'' = Some ''ftp'' \<and>
     doc = ''<html><body><pre>'' @ content @ ''</pre></body></html>''"
proof -
  let ?d = "\<lparr>period = None, sales = None, items = None, income = Some (50000::int),
             expenses = Some 32000\<rparr>"
  have g: "get_generator ''financial'' = Some FinancialGenerator"
    by (simp add: get_generator_def)
  obtain content where c: "fst (generate int_runtime FinancialGenerator ?d new_report_system)
      = Inr content"
    using generate_ok [of FinancialGenerator ?d int_runtime new_report_system] by auto
  from generate_report_ok [OF g c, of "''docx''" "''ftp''"] obtain doc sys1 where
    run: "generate_report int_runtime ''financial'' ?d ''docx'' ''ftp'' new_report_system
            = (Inr (Some doc), sys1)"
    by blast
  from generate_report_records_tags [OF run] show ?thesis
    using run by auto
qed

end
